theory Spec2Isabelle
  imports Main "HOL-Library.AList"
begin

section \<open>The dashboard's API client (frontend/js/api.js)\<close>

subsection \<open>JavaScript values\<close>

text \<open>
  A value produced by \<^verbatim>\<open>JSON.parse\<close>. The number type is a parameter: what the
  engine does with a number (its truthiness and its decimal rendering) is supplied
  by \<open>js_builtins\<close>. An object is the list of its own properties, each key once
  (\<^verbatim>\<open>JSON.parse\<close> keeps one value per key); \<open>undefined\<close> is the \<open>None\<close> of an
  optional value.
\<close>

datatype 'n json =
    JNull
  | JBool bool
  | JNum 'n
  | JStr string
  | JArr "'n json list"
  | JObj "(string \<times> 'n json) list"

datatype error_kind = ErrorK | SyntaxErrorK | TypeErrorK

text \<open>A thrown error object: its constructor and its \<^verbatim>\<open>message\<close>.\<close>

datatype js_error = JsError error_kind string

fun message :: "js_error \<Rightarrow> string" where
  "message (JsError k m) = m"

text \<open>
  The parts of the JavaScript engine the client relies on: \<^verbatim>\<open>Boolean(n)\<close> and
  \<^verbatim>\<open>String(n)\<close> of a number, \<^verbatim>\<open>JSON.stringify\<close>, and the messages of the
  TypeErrors raised when a property of \<^verbatim>\<open>null\<close> is read and when an object cannot
  be converted to a primitive value.
\<close>

record 'n js_builtins =
  num_truthy :: "'n \<Rightarrow> bool"
  num_to_string :: "'n \<Rightarrow> string"
  json_stringify :: "'n json \<Rightarrow> string"
  null_property_message :: "string \<Rightarrow> string"
  to_primitive_message :: string

text \<open>\<^verbatim>\<open>Boolean(v)\<close>: the operand test of \<^verbatim>\<open>||\<close>.\<close>

fun truthy :: "'n js_builtins \<Rightarrow> 'n json option \<Rightarrow> bool" where
  "truthy js None = False"
| "truthy js (Some JNull) = False"
| "truthy js (Some (JBool b)) = b"
| "truthy js (Some (JNum n)) = num_truthy js n"
| "truthy js (Some (JStr s)) = (s \<noteq> [])"
| "truthy js (Some (JArr xs)) = True"
| "truthy js (Some (JObj kvs)) = True"

fun join :: "string \<Rightarrow> string list \<Rightarrow> string" where
  "join sep [] = []"
| "join sep [s] = s"
| "join sep (s # t # ss) = s @ sep @ join sep (t # ss)"

text \<open>
  The conversion to a string that a template literal and \<^verbatim>\<open>new Error(v)\<close> apply to
  a value; it can throw. An object is converted through its \<^verbatim>\<open>toString\<close>: a parsed
  object inherits the one of \<^verbatim>\<open>Object.prototype\<close>, which gives \<^verbatim>\<open>[object Object]\<close>,
  unless it has an own property of that name. An own property of a parsed object is
  never a function, so the conversion goes on to \<^verbatim>\<open>valueOf\<close>, which is an own
  property again or the inherited one that returns the object itself: no primitive
  value is reached and a TypeError is thrown. An array is its elements converted in
  order and joined by commas, with \<^verbatim>\<open>null\<close> rendered empty there; the first element
  whose conversion throws ends it.
\<close>

fun to_string :: "'n js_builtins \<Rightarrow> 'n json \<Rightarrow> js_error + string"
  and to_string_elements :: "'n js_builtins \<Rightarrow> 'n json list \<Rightarrow> js_error + string list" where
  "to_string js JNull = Inr ''null''"
| "to_string js (JBool b) = Inr (if b then ''true'' else ''false'')"
| "to_string js (JNum n) = Inr (num_to_string js n)"
| "to_string js (JStr s) = Inr s"
| "to_string js (JArr xs) =
     (case to_string_elements js xs of
        Inl e \<Rightarrow> Inl e
      | Inr ss \<Rightarrow> Inr (join '','' ss))"
| "to_string js (JObj kvs) =
     (if map_of kvs ''toString'' \<noteq> None
      then Inl (JsError TypeErrorK (to_primitive_message js))
      else Inr ''[object Object]'')"
| "to_string_elements js [] = Inr []"
| "to_string_elements js (x # xs) =
     (case (if x = JNull then Inr [] else to_string js x) of
        Inl e \<Rightarrow> Inl e
      | Inr s \<Rightarrow>
          (case to_string_elements js xs of
             Inl e \<Rightarrow> Inl e
           | Inr ss \<Rightarrow> Inr (s # ss)))"

text \<open>The same conversion of a value that may be \<^verbatim>\<open>undefined\<close>.\<close>

fun to_string_opt :: "'n js_builtins \<Rightarrow> 'n json option \<Rightarrow> js_error + string" where
  "to_string_opt js None = Inr ''undefined''"
| "to_string_opt js (Some v) = to_string js v"

text \<open>
  The values whose conversion throws: an object with an own \<^verbatim>\<open>toString\<close> property,
  and an array that holds such a value.
\<close>

fun own_toString :: "'n json \<Rightarrow> bool" where
  "own_toString (JObj kvs) = (map_of kvs ''toString'' \<noteq> None)"
| "own_toString (JArr xs) = (\<exists>x \<in> set xs. own_toString x)"
| "own_toString v = False"

text \<open>
  Reading the property \<open>k\<close> of a value, for the two names the client reads
  (\<^verbatim>\<open>error\<close>, \<^verbatim>\<open>url\<close>), which no built-in prototype defines: \<^verbatim>\<open>null\<close> throws a
  TypeError, an object gives its own property or \<^verbatim>\<open>undefined\<close>, every other
  value gives \<^verbatim>\<open>undefined\<close>.
\<close>

fun get_prop :: "'n js_builtins \<Rightarrow> 'n json \<Rightarrow> string \<Rightarrow> js_error + 'n json option" where
  "get_prop js JNull k = Inl (JsError TypeErrorK (null_property_message js k))"
| "get_prop js (JObj kvs) k = Inr (map_of kvs k)"
| "get_prop js v k = Inr None"

subsection \<open>fetch and the response\<close>

text \<open>
  The argument of \<^verbatim>\<open>fetch\<close>: the URL and the merged options. \<open>req_body\<close> is
  the string handed over as \<^verbatim>\<open>body\<close>.
\<close>

record fetch_request =
  req_url :: string
  req_method :: "string option"
  req_headers :: "(string \<times> string) list"
  req_body :: "string option"

text \<open>
  What the client reads of a Response: \<^verbatim>\<open>ok\<close>, \<^verbatim>\<open>status\<close> and what
  \<^verbatim>\<open>response.json()\<close> settles to (the parsed body, or the error it rejects with).
\<close>

record 'n http_response =
  ok :: bool
  status :: 'n
  json_result :: "js_error + 'n json"

record request_options =
  opt_method :: "string option"
  opt_headers :: "(string \<times> string) list option"
  opt_body :: "string option"

definition no_options :: request_options where
  "no_options = \<lparr>opt_method = None, opt_headers = None, opt_body = None\<rparr>"

record VMApi =
  baseUrl :: string

text \<open>\<^verbatim>\<open>{ ...defaultOptions, ...options }\<close>: a key of \<open>options\<close> replaces the default.\<close>

definition merged_request :: "VMApi \<Rightarrow> string \<Rightarrow> request_options \<Rightarrow> fetch_request" where
  "merged_request api endpoint options =
     \<lparr>req_url = baseUrl api @ endpoint,
      req_method = opt_method options,
      req_headers = (case opt_headers options of
                       None \<Rightarrow> [(''Content-Type'', ''application/json'')]
                     | Some h \<Rightarrow> h),
      req_body = opt_body options\<rparr>"

text \<open>
  The message computed on a response that is not ok: \<^verbatim>\<open>HTTP <status>\<close>, replaced
  by the body's \<^verbatim>\<open>error\<close> when the body parses and that property is truthy; a
  failure inside the \<^verbatim>\<open>try\<close> leaves the default.
\<close>

definition errorMsg :: "'n js_builtins \<Rightarrow> 'n http_response \<Rightarrow> 'n json" where
  "errorMsg js response =
     (let dflt = JStr (''HTTP '' @ num_to_string js (status response)) in
      case json_result response of
        Inl e \<Rightarrow> dflt
      | Inr errorData \<Rightarrow>
          (case get_prop js errorData ''error'' of
             Inl e \<Rightarrow> dflt
           | Inr p \<Rightarrow> (if truthy js p then (case p of Some v \<Rightarrow> v | None \<Rightarrow> dflt) else dflt)))"

text \<open>
  \<^verbatim>\<open>VMApi.request\<close>. \<open>fetch\<close> is the browser's: it rejects (\<open>Inl\<close>) or gives a
  response. The result is the value the returned promise settles to: \<open>Inl\<close> a
  thrown error, \<open>Inr\<close> the value returned. On a response that is not ok,
  \<^verbatim>\<open>throw new Error(errorMsg)\<close> stands after the \<^verbatim>\<open>catch\<close>: when the string
  conversion of \<^verbatim>\<open>errorMsg\<close> throws, that TypeError is what the call rejects with.
\<close>

definition request ::
  "'n js_builtins \<Rightarrow> (fetch_request \<Rightarrow> js_error + 'n http_response) \<Rightarrow> VMApi \<Rightarrow>
   string \<Rightarrow> request_options \<Rightarrow> js_error + 'n json" where
  "request js fetch api endpoint options =
     (case fetch (merged_request api endpoint options) of
        Inl e \<Rightarrow> Inl e
      | Inr response \<Rightarrow>
          if \<not> ok response
          then (case to_string js (errorMsg js response) of
                  Inl e \<Rightarrow> Inl e
                | Inr msg \<Rightarrow> Inl (JsError ErrorK msg))
          else json_result response)"

text \<open>
  The endpoint methods. Each builds its endpoint in a template literal before it calls
  \<^verbatim>\<open>request\<close>: when the conversion of \<^verbatim>\<open>vmId\<close> throws, the method rejects with that
  error and no request is made.
\<close>

definition listVMs where
  "listVMs js fetch api = request js fetch api ''/vms'' no_options"

definition createVM where
  "createVM js fetch api config =
     request js fetch api ''/vms''
       (no_options\<lparr>opt_method := Some ''POST'', opt_body := Some (json_stringify js config)\<rparr>)"

definition startVM where
  "startVM js fetch api vmId =
     (case to_string_opt js vmId of
        Inl e \<Rightarrow> Inl e
      | Inr vid \<Rightarrow>
          request js fetch api (''/vms/'' @ vid @ ''/start'')
            (no_options\<lparr>opt_method := Some ''POST''\<rparr>))"

definition stopVM where
  "stopVM js fetch api vmId =
     (case to_string_opt js vmId of
        Inl e \<Rightarrow> Inl e
      | Inr vid \<Rightarrow>
          request js fetch api (''/vms/'' @ vid @ ''/stop'')
            (no_options\<lparr>opt_method := Some ''POST''\<rparr>))"

definition deleteVM where
  "deleteVM js fetch api vmId =
     (case to_string_opt js vmId of
        Inl e \<Rightarrow> Inl e
      | Inr vid \<Rightarrow>
          request js fetch api (''/vms/'' @ vid)
            (no_options\<lparr>opt_method := Some ''DELETE''\<rparr>))"

definition getVNCUrl where
  "getVNCUrl js fetch api vmId =
     (case to_string_opt js vmId of
        Inl e \<Rightarrow> Inl e
      | Inr vid \<Rightarrow> request js fetch api (''/vms/'' @ vid @ ''/vnc'') no_options)"

subsection \<open>Opening the console (VMManagerApp.openConsole)\<close>

text \<open>The fields of a VM object that \<^verbatim>\<open>openConsole\<close> reads; a missing one is \<open>None\<close>.\<close>

record 'n vm_object =
  vm_id :: "'n json option"
  vm_name :: "'n json option"
  vm_state :: "'n json option"

text \<open>
  What \<^verbatim>\<open>openConsole\<close> does, in order: \<^verbatim>\<open>this.api.getVNCUrl(vm.id)\<close>
  called, a notification (\<^verbatim>\<open>showNotification(message, type)\<close>), the title written
  to the console modal, the modal shown, a \<^verbatim>\<open>VMConsole\<close> constructed from the id and
  the URL, \<^verbatim>\<open>connect()\<close> called on it.
\<close>

datatype 'n effect =
    CallGetVNCUrl "'n json option"
  | ShowNotification string string
  | SetTextContent string string
  | ShowModal string
  | NewVMConsole "'n json option" "'n json option"
  | Connect

definition showError :: "string \<Rightarrow> 'n effect list" where
  "showError msg = [ShowNotification msg ''error'']"

text \<open>
  \<^verbatim>\<open>VMManagerApp.openConsole\<close>: the guard on \<^verbatim>\<open>vm.state\<close> (strict inequality with
  the two strings), then the \<^verbatim>\<open>try\<close> block, whose \<^verbatim>\<open>catch\<close> reports the message of
  whatever was thrown: by \<^verbatim>\<open>getVNCUrl\<close>, by the conversion of \<^verbatim>\<open>vm.name\<close> in the
  title's template literal (the title is then not written), or by reading
  \<^verbatim>\<open>consoleUrl.url\<close> after the title and the modal are set. The elements of the page
  that the method looks up are taken to exist. The result is the list of what the call
  does, in order.
\<close>

definition openConsole ::
  "'n js_builtins \<Rightarrow> (fetch_request \<Rightarrow> js_error + 'n http_response) \<Rightarrow> VMApi \<Rightarrow>
   'n vm_object \<Rightarrow> 'n effect list" where
  "openConsole js fetch api vm =
     (if vm_state vm \<noteq> Some (JStr ''running'') \<and> vm_state vm \<noteq> Some (JStr ''Running'')
      then showError ''VM must be running to open console''
      else
        CallGetVNCUrl (vm_id vm) #
        (case getVNCUrl js fetch api (vm_id vm) of
           Inl error \<Rightarrow> showError (''Failed to open console: '' @ message error)
         | Inr consoleUrl \<Rightarrow>
             (case to_string_opt js (vm_name vm) of
                Inl error \<Rightarrow> showError (''Failed to open console: '' @ message error)
              | Inr vmName \<Rightarrow>
                  SetTextContent ''consoleTitle'' (''Console - '' @ vmName) #
                  ShowModal ''consoleModal'' #
                  (case get_prop js consoleUrl ''url'' of
                     Inl error \<Rightarrow> showError (''Failed to open console: '' @ message error)
                   | Inr url \<Rightarrow> [NewVMConsole (vm_id vm) url, Connect]))))"

text \<open>
  An engine to run the client on: a number is written as its decimal numeral, which is
  also its \<^verbatim>\<open>String\<close>; it is falsy when it is \<^verbatim>\<open>0\<close>.
\<close>

definition demo_js :: "string js_builtins" where
  "demo_js = \<lparr>num_truthy = (\<lambda>n. n \<noteq> ''0''),
              num_to_string = (\<lambda>n. n),
              json_stringify = (\<lambda>v. ''{}''),
              null_property_message = (\<lambda>k. ''Cannot read properties of null''),
              to_primitive_message = ''Cannot convert object to primitive value''\<rparr>"

section \<open>The orchestrator core, from the specification\<close>

text \<open>
  The repository holds the dashboard client; the orchestrator its requests reach is
  described by the specification only, and the definitions of this section follow the
  specification's words.
\<close>

text \<open>Modelled from the spec: the error taxonomy of section 7; no orchestrator code
  is among the sources.\<close>

datatype error =
    NotFound
  | InvalidConfig
  | QuotaExceeded
  | InvalidTransition
  | SpawnFailed string
  | PortExhausted
  | InternalInconsistency

text \<open>Modelled from the spec: LifecycleState of section 3 (the state machine's code is
  missing).\<close>

datatype lifecycle_state = Stopped | Starting | Running | Stopping | Error

text \<open>Modelled from the spec: the declared configuration of a VirtualMachine, section 3
  (the record's declaration is missing).\<close>

record vm_config =
  name :: string
  memory :: nat
  vcpu :: nat
  disk :: nat
  install_media :: string
  firmware :: "string option"

text \<open>Modelled from the spec: VirtualMachine of section 3, its configuration and runtime
  state (the declaration is missing).\<close>

record virtual_machine =
  config :: vm_config
  lifecycle :: lifecycle_state
  pid :: "nat option"
  console_port :: "nat option"
  started_at :: "nat option"

text \<open>Modelled from the spec: the Resource Governor's configured ceilings, section 6
  (max VM count, max aggregate memory, vCPU and disk); the configuration code is
  missing.\<close>

record ceilings =
  max_memory :: nat
  max_vcpu :: nat
  max_disk :: nat
  max_vms :: nat

text \<open>Modelled from the spec: ResourceLedger of section 3, the process-wide counters, with
  the disk total that \<open>try_reserve\<close> takes (the Governor's code is missing).\<close>

record resource_ledger =
  used_memory :: nat
  used_vcpu :: nat
  used_disk :: nat
  vm_count :: nat
  port_count :: nat

text \<open>Modelled from the spec: the admission test of section 4.2, every dimension against
  its ceiling, a reservation counting as one more VM (the Governor's code is missing).\<close>

definition fits :: "ceilings \<Rightarrow> resource_ledger \<Rightarrow> nat \<Rightarrow> nat \<Rightarrow> nat \<Rightarrow> bool" where
  "fits lim led m c d \<longleftrightarrow>
     used_memory led + m \<le> max_memory lim \<and>
     used_vcpu led + c \<le> max_vcpu lim \<and>
     used_disk led + d \<le> max_disk lim \<and>
     vm_count led + 1 \<le> max_vms lim"

text \<open>Modelled from the spec: \<open>try_reserve(memory, vcpu, disk) -> bool\<close> of section 4.2
  (the Governor's code is missing): all dimensions are checked together, then all are
  committed. The result is the answer and the ledger after the call.\<close>

definition try_reserve ::
  "ceilings \<Rightarrow> resource_ledger \<Rightarrow> nat \<Rightarrow> nat \<Rightarrow> nat \<Rightarrow> bool \<times> resource_ledger" where
  "try_reserve lim led m c d =
     (if fits lim led m c d
      then (True, led\<lparr>used_memory := used_memory led + m,
                      used_vcpu := used_vcpu led + c,
                      used_disk := used_disk led + d,
                      vm_count := vm_count led + 1\<rparr>)
      else (False, led))"

text \<open>Modelled from the spec: the orchestrator's shared mutable state of section 5, the
  Registry map, the Governor's counters and the Port Allocator's held ports (the
  Registry's code is missing). The Registry is a list of entries by VM id.\<close>

record orchestrator =
  registry :: "(nat \<times> virtual_machine) list"
  ledger :: resource_ledger
  port_pool :: "nat set"

text \<open>Modelled from the spec: removing a VM record entirely, section 4.1 (the Registry's
  code is missing).\<close>

definition remove :: "nat \<Rightarrow> orchestrator \<Rightarrow> orchestrator" where
  "remove vid s = s\<lparr>registry := AList.delete vid (registry s)\<rparr>"

text \<open>Modelled from the spec: \<open>delete(id)\<close> of section 4.1 (the Registry's code is
  missing): NotFound for an unknown id; a VM that is Running, Starting or Stopping is
  stopped first; then the record is removed. The implicit stop is the parameter
  \<open>stop\<close>, whose failure ends the deletion. The result is the answer and the state
  after the call.\<close>

definition delete ::
  "(nat \<Rightarrow> orchestrator \<Rightarrow> (error + unit) \<times> orchestrator) \<Rightarrow>
   orchestrator \<Rightarrow> nat \<Rightarrow> (error + unit) \<times> orchestrator" where
  "delete stop s vid =
     (case map_of (registry s) vid of
        None \<Rightarrow> (Inl NotFound, s)
      | Some vm \<Rightarrow>
          if lifecycle vm = Running \<or> lifecycle vm = Starting \<or> lifecycle vm = Stopping
          then (case stop vid s of
                  (Inl e, s') \<Rightarrow> (Inl e, s')
                | (Inr u, s') \<Rightarrow> (Inr (), remove vid s'))
          else (Inr (), remove vid s))"

text \<open>Modelled from the spec: two registry entries to run \<open>delete\<close> on, a VM in
  Stopped and a VM in Running with its reservation and port held, and a \<open>stop\<close> that
  releases them (no orchestrator code is among the sources).\<close>

definition demo_config :: vm_config where
  "demo_config = \<lparr>name = ''alpine'', memory = 1024, vcpu = 2, disk = 10,
     install_media = ''/var/lib/vm-manager/isos/alpine.iso'', firmware = None\<rparr>"

definition demo_state :: orchestrator where
  "demo_state =
     \<lparr>registry =
        [(1, \<lparr>config = demo_config, lifecycle = Stopped, pid = None,
               console_port = None, started_at = None\<rparr>),
         (2, \<lparr>config = demo_config, lifecycle = Running, pid = Some 4711,
               console_port = Some 5900, started_at = Some 0\<rparr>)],
      ledger = \<lparr>used_memory = 1024, used_vcpu = 2, used_disk = 10, vm_count = 1,
                 port_count = 1\<rparr>,
      port_pool = {5900}\<rparr>"

definition demo_stop :: "nat \<Rightarrow> orchestrator \<Rightarrow> (error + unit) \<times> orchestrator" where
  "demo_stop vid s =
     (Inr (),
      s\<lparr>ledger := \<lparr>used_memory = 0, used_vcpu = 0, used_disk = 0, vm_count = 0,
                     port_count = 0\<rparr>,
        port_pool := {}\<rparr>)"

section \<open>Properties of the API client\<close>

lemma to_string_throws_TypeError:
  "to_string js v = Inl t \<Longrightarrow> t = JsError TypeErrorK (to_primitive_message js)"
  "to_string_elements js vs = Inl t \<Longrightarrow> t = JsError TypeErrorK (to_primitive_message js)"
  by (induction js v and js vs rule: to_string_to_string_elements.induct)
    (auto split: sum.splits if_splits)

lemma to_string_throws_iff:
  "(\<exists>t. to_string js v = Inl t) \<longleftrightarrow> own_toString v"
  "(\<exists>t. to_string_elements js vs = Inl t) \<longleftrightarrow> (\<exists>x \<in> set vs. own_toString x)"
  by (induction js v and js vs rule: to_string_to_string_elements.induct)
    (auto split: sum.splits if_splits)

lemma api_methods_are_requests:
  "listVMs js fetch api = request js fetch api ''/vms'' no_options"
  "\<exists>options. createVM js fetch api cfg = request js fetch api ''/vms'' options"
  "to_string_opt js vmId = Inr vid \<Longrightarrow>
     \<exists>options. startVM js fetch api vmId = request js fetch api (''/vms/'' @ vid @ ''/start'') options"
  "to_string_opt js vmId = Inr vid \<Longrightarrow>
     \<exists>options. stopVM js fetch api vmId = request js fetch api (''/vms/'' @ vid @ ''/stop'') options"
  "to_string_opt js vmId = Inr vid \<Longrightarrow>
     \<exists>options. deleteVM js fetch api vmId = request js fetch api (''/vms/'' @ vid) options"
  "to_string_opt js vmId = Inr vid \<Longrightarrow>
     getVNCUrl js fetch api vmId = request js fetch api (''/vms/'' @ vid @ ''/vnc'') no_options"
  unfolding listVMs_def createVM_def startVM_def stopVM_def deleteVM_def getVNCUrl_def
  by auto

lemma api_methods_conversion_throws:
  assumes "to_string_opt js vmId = Inl e"
  shows "startVM js fetch api vmId = Inl e" "stopVM js fetch api vmId = Inl e"
    "deleteVM js fetch api vmId = Inl e" "getVNCUrl js fetch api vmId = Inl e"
  using assms by (simp_all add: startVM_def stopVM_def deleteVM_def getVNCUrl_def)

lemma request_not_ok:
  assumes "fetch (merged_request api endpoint options) = Inr response" "\<not> ok response"
  shows "request js fetch api endpoint options =
           (case to_string js (errorMsg js response) of
              Inl e \<Rightarrow> Inl e
            | Inr msg \<Rightarrow> Inl (JsError ErrorK msg))"
  using assms by (simp add: request_def)

lemma errorMsg_truthy_error:
  assumes "json_result response = Inr (JObj kvs)" "map_of kvs ''error'' = Some e"
    "truthy js (Some e)"
  shows "errorMsg js response = e"
  using assms by (simp add: errorMsg_def)

lemma errorMsg_default:
  assumes "\<not> (\<exists>kvs e. json_result response = Inr (JObj kvs) \<and>
              map_of kvs ''error'' = Some e \<and> truthy js (Some e))"
  shows "errorMsg js response = JStr (''HTTP '' @ num_to_string js (status response))"
proof (cases "json_result response")
  case (Inl err)
  then show ?thesis by (simp add: errorMsg_def)
next
  case (Inr errorData)
  show ?thesis
  proof (cases errorData)
    case (JObj kvs)
    with Inr assms show ?thesis
      by (cases "map_of kvs ''error''") (auto simp: errorMsg_def)
  qed (use Inr in \<open>simp_all add: errorMsg_def\<close>)
qed

text \<open>
  C9, as stated, fails at two responses. One is ok with an empty body:
  \<^verbatim>\<open>response.json()\<close> rejects, so does the call, and \<^verbatim>\<open>deleteVM\<close> returns no parsed
  body. The other is not ok and its body's \<^verbatim>\<open>error\<close> is an object with an own
  \<^verbatim>\<open>toString\<close> property: \<^verbatim>\<open>new Error\<close> cannot convert it, and the call rejects
  with a TypeError, which is neither an Error carrying the field nor \<^verbatim>\<open>HTTP 400\<close>.
\<close>

theorem request_claim_fails:
  "ok \<lparr>ok = True, status = ''204'',
       json_result = Inl (JsError SyntaxErrorK ''Unexpected end of JSON input'')\<rparr>
   \<and> deleteVM demo_js
     (\<lambda>r. Inr \<lparr>ok = True, status = ''204'',
               json_result = Inl (JsError SyntaxErrorK ''Unexpected end of JSON input'')\<rparr>)
     \<lparr>baseUrl = ''http://127.0.0.1:3030/api''\<rparr> (Some (JStr ''7''))
   = Inl (JsError SyntaxErrorK ''Unexpected end of JSON input'')
   \<and> request demo_js
     (\<lambda>r. Inr \<lparr>ok = False, status = ''400'',
               json_result = Inr (JObj [(''error'', JObj [(''toString'', JNum ''1'')])])\<rparr>)
     \<lparr>baseUrl = ''http://127.0.0.1:3030/api''\<rparr> ''/vms'' no_options
   = Inl (JsError TypeErrorK ''Cannot convert object to primitive value'')"
  by (simp add: deleteVM_def request_def errorMsg_def demo_js_def)

text \<open>
  C9 (amended). For every call of \<^verbatim>\<open>VMApi.request\<close> (hence \<^verbatim>\<open>listVMs\<close>,
  \<^verbatim>\<open>createVM\<close>, \<^verbatim>\<open>startVM\<close>, \<^verbatim>\<open>stopVM\<close>, \<^verbatim>\<open>deleteVM\<close>, \<^verbatim>\<open>getVNCUrl\<close>) that
  \<^verbatim>\<open>fetch\<close> answers with a response. If the response is not ok the call throws and
  never returns a value. When the body parses as a JSON object with a truthy
  \<^verbatim>\<open>error\<close>, what is thrown is an Error whose message is the string that property
  converts to (the property itself when it is a non-empty string), or the TypeError of
  that conversion when it fails; otherwise it is an Error with the message
  \<^verbatim>\<open>HTTP <status>\<close>. If the response is ok, the call settles as \<^verbatim>\<open>response.json()\<close>
  does: it returns the parsed body when the body parses, and throws the parse error
  otherwise.
\<close>

theorem request_settles:
  assumes "fetch (merged_request api endpoint options) = Inr response"
  shows "(\<forall>kvs e msg. \<not> ok response \<and> json_result response = Inr (JObj kvs) \<and>
            map_of kvs ''error'' = Some e \<and> truthy js (Some e) \<and> to_string js e = Inr msg \<longrightarrow>
            request js fetch api endpoint options = Inl (JsError ErrorK msg))
       \<and> (\<forall>kvs s. \<not> ok response \<and> json_result response = Inr (JObj kvs) \<and>
            map_of kvs ''error'' = Some (JStr s) \<and> s \<noteq> [] \<longrightarrow>
            request js fetch api endpoint options = Inl (JsError ErrorK s))
       \<and> (\<forall>kvs e t. \<not> ok response \<and> json_result response = Inr (JObj kvs) \<and>
            map_of kvs ''error'' = Some e \<and> truthy js (Some e) \<and> to_string js e = Inl t \<longrightarrow>
            request js fetch api endpoint options = Inl t \<and>
            t = JsError TypeErrorK (to_primitive_message js))
       \<and> (\<not> ok response \<and>
            \<not> (\<exists>kvs e. json_result response = Inr (JObj kvs) \<and>
                 map_of kvs ''error'' = Some e \<and> truthy js (Some e)) \<longrightarrow>
            request js fetch api endpoint options =
              Inl (JsError ErrorK (''HTTP '' @ num_to_string js (status response))))
       \<and> (\<not> ok response \<longrightarrow> (\<forall>v. request js fetch api endpoint options \<noteq> Inr v))
       \<and> (ok response \<longrightarrow> request js fetch api endpoint options = json_result response)"
proof (intro conjI allI impI)
  fix kvs e msg
  assume h: "\<not> ok response \<and> json_result response = Inr (JObj kvs) \<and>
    map_of kvs ''error'' = Some e \<and> truthy js (Some e) \<and> to_string js e = Inr msg"
  then have "errorMsg js response = e"
    using errorMsg_truthy_error by blast
  with h assms show "request js fetch api endpoint options = Inl (JsError ErrorK msg)"
    by (simp add: request_not_ok)
next
  fix kvs s
  assume h: "\<not> ok response \<and> json_result response = Inr (JObj kvs) \<and>
    map_of kvs ''error'' = Some (JStr s) \<and> s \<noteq> []"
  then have "errorMsg js response = JStr s"
    by (simp add: errorMsg_truthy_error)
  with h assms show "request js fetch api endpoint options = Inl (JsError ErrorK s)"
    by (simp add: request_not_ok)
next
  fix kvs e t
  assume h: "\<not> ok response \<and> json_result response = Inr (JObj kvs) \<and>
    map_of kvs ''error'' = Some e \<and> truthy js (Some e) \<and> to_string js e = Inl t"
  then have "errorMsg js response = e"
    using errorMsg_truthy_error by blast
  with h assms show "request js fetch api endpoint options = Inl t"
    by (simp add: request_not_ok)
  from h have "to_string js e = Inl t" by simp
  then show "t = JsError TypeErrorK (to_primitive_message js)"
    by (rule to_string_throws_TypeError)
next
  assume h: "\<not> ok response \<and>
    \<not> (\<exists>kvs e. json_result response = Inr (JObj kvs) \<and>
         map_of kvs ''error'' = Some e \<and> truthy js (Some e))"
  then have "errorMsg js response = JStr (''HTTP '' @ num_to_string js (status response))"
    using errorMsg_default by blast
  with h assms show "request js fetch api endpoint options =
      Inl (JsError ErrorK (''HTTP '' @ num_to_string js (status response)))"
    by (simp add: request_not_ok)
next
  fix v
  assume "\<not> ok response"
  with assms show "request js fetch api endpoint options \<noteq> Inr v"
    by (simp add: request_not_ok split: sum.splits)
next
  assume "ok response"
  with assms show "request js fetch api endpoint options = json_result response"
    by (simp add: request_def)
qed

text \<open>
  The theorem at four answers of the server: 404 with an \<^verbatim>\<open>error\<close> text, 500 with
  an empty (falsy) \<^verbatim>\<open>error\<close>, 400 with an \<^verbatim>\<open>error\<close> object that has no string, 200
  with a JSON body.
\<close>

theorem request_settles_witness:
  "request demo_js
     (\<lambda>r. Inr \<lparr>ok = False, status = ''404'',
               json_result = Inr (JObj [(''error'', JStr ''VM not found'')])\<rparr>)
     \<lparr>baseUrl = ''http://127.0.0.1:3030/api''\<rparr> ''/vms/7'' no_options
   = Inl (JsError ErrorK ''VM not found'')
   \<and> request demo_js
     (\<lambda>r. Inr \<lparr>ok = False, status = ''500'', json_result = Inr (JObj [(''error'', JStr [])])\<rparr>)
     \<lparr>baseUrl = ''http://127.0.0.1:3030/api''\<rparr> ''/vms/7'' no_options
   = Inl (JsError ErrorK ''HTTP 500'')
   \<and> request demo_js
     (\<lambda>r. Inr \<lparr>ok = False, status = ''400'',
               json_result = Inr (JObj [(''error'', JObj [(''toString'', JNum ''1'')])])\<rparr>)
     \<lparr>baseUrl = ''http://127.0.0.1:3030/api''\<rparr> ''/vms/7'' no_options
   = Inl (JsError TypeErrorK ''Cannot convert object to primitive value'')
   \<and> request demo_js
     (\<lambda>r. Inr \<lparr>ok = True, status = ''200'', json_result = Inr (JObj [(''id'', JStr ''7'')])\<rparr>)
     \<lparr>baseUrl = ''http://127.0.0.1:3030/api''\<rparr> ''/vms/7'' no_options
   = Inr (JObj [(''id'', JStr ''7'')])"
  using
    request_settles [where js = demo_js and api = "\<lparr>baseUrl = ''http://127.0.0.1:3030/api''\<rparr>"
      and endpoint = "''/vms/7''" and options = no_options
      and fetch = "\<lambda>r. Inr \<lparr>ok = False, status = ''404'',
               json_result = Inr (JObj [(''error'', JStr ''VM not found'')])\<rparr>"
      and response = "\<lparr>ok = False, status = ''404'',
               json_result = Inr (JObj [(''error'', JStr ''VM not found'')])\<rparr>"]
    request_settles [where js = demo_js and api = "\<lparr>baseUrl = ''http://127.0.0.1:3030/api''\<rparr>"
      and endpoint = "''/vms/7''" and options = no_options
      and fetch = "\<lambda>r. Inr \<lparr>ok = False, status = ''500'',
               json_result = Inr (JObj [(''error'', JStr [])])\<rparr>"
      and response = "\<lparr>ok = False, status = ''500'',
               json_result = Inr (JObj [(''error'', JStr [])])\<rparr>"]
    request_settles [where js = demo_js and api = "\<lparr>baseUrl = ''http://127.0.0.1:3030/api''\<rparr>"
      and endpoint = "''/vms/7''" and options = no_options
      and fetch = "\<lambda>r. Inr \<lparr>ok = False, status = ''400'',
               json_result = Inr (JObj [(''error'', JObj [(''toString'', JNum ''1'')])])\<rparr>"
      and response = "\<lparr>ok = False, status = ''400'',
               json_result = Inr (JObj [(''error'', JObj [(''toString'', JNum ''1'')])])\<rparr>"]
    request_settles [where js = demo_js and api = "\<lparr>baseUrl = ''http://127.0.0.1:3030/api''\<rparr>"
      and endpoint = "''/vms/7''" and options = no_options
      and fetch = "\<lambda>r. Inr \<lparr>ok = True, status = ''200'',
               json_result = Inr (JObj [(''id'', JStr ''7'')])\<rparr>"
      and response = "\<lparr>ok = True, status = ''200'',
               json_result = Inr (JObj [(''id'', JStr ''7'')])\<rparr>"]
  by (simp add: demo_js_def)

lemma openConsole_not_running:
  assumes "vm_state vm \<noteq> Some (JStr ''running'')" "vm_state vm \<noteq> Some (JStr ''Running'')"
  shows "openConsole js fetch api vm =
           [ShowNotification ''VM must be running to open console'' ''error'']"
  using assms by (simp add: openConsole_def showError_def)

lemma openConsole_running_head:
  assumes "vm_state vm = Some (JStr ''running'') \<or> vm_state vm = Some (JStr ''Running'')"
  shows "\<exists>rest. openConsole js fetch api vm = CallGetVNCUrl (vm_id vm) # rest"
  using assms by (auto simp: openConsole_def)

lemma openConsole_running_example:
  "openConsole demo_js
     (\<lambda>r. Inr \<lparr>ok = True, status = ''200'',
               json_result = Inr (JObj [(''url'', JStr ''ws://127.0.0.1:6080'')])\<rparr>)
     \<lparr>baseUrl = ''http://127.0.0.1:3030/api''\<rparr>
     \<lparr>vm_id = Some (JStr ''7''), vm_name = Some (JStr ''alpine''),
      vm_state = Some (JStr ''Running'')\<rparr>
   = [CallGetVNCUrl (Some (JStr ''7'')),
      SetTextContent ''consoleTitle'' ''Console - alpine'',
      ShowModal ''consoleModal'',
      NewVMConsole (Some (JStr ''7'')) (Some (JStr ''ws://127.0.0.1:6080'')),
      Connect]"
  by (simp add: openConsole_def getVNCUrl_def request_def demo_js_def)

text \<open>
  C10. For every VM whose \<^verbatim>\<open>state\<close> is any value other than the exact strings
  \<^verbatim>\<open>running\<close> or \<^verbatim>\<open>Running\<close> (a missing state included), \<^verbatim>\<open>openConsole\<close> shows the
  error and does nothing else: \<^verbatim>\<open>getVNCUrl\<close> is not called and no \<^verbatim>\<open>VMConsole\<close> is
  constructed. Whenever either of them happens the state is one of the two strings,
  and with such a state the first thing done is the call of \<^verbatim>\<open>getVNCUrl\<close> with the
  VM's id.
\<close>

theorem openConsole_guard:
  "(vm_state vm \<noteq> Some (JStr ''running'') \<and> vm_state vm \<noteq> Some (JStr ''Running'') \<longrightarrow>
      openConsole js fetch api vm =
        [ShowNotification ''VM must be running to open console'' ''error''])
   \<and> (\<forall>e \<in> set (openConsole js fetch api vm).
        (\<exists>i. e = CallGetVNCUrl i) \<or> (\<exists>i u. e = NewVMConsole i u) \<longrightarrow>
        vm_state vm = Some (JStr ''running'') \<or> vm_state vm = Some (JStr ''Running''))
   \<and> (vm_state vm = Some (JStr ''running'') \<or> vm_state vm = Some (JStr ''Running'') \<longrightarrow>
        (\<exists>rest. openConsole js fetch api vm = CallGetVNCUrl (vm_id vm) # rest))"
proof (intro conjI impI ballI)
  assume "vm_state vm \<noteq> Some (JStr ''running'') \<and> vm_state vm \<noteq> Some (JStr ''Running'')"
  then show "openConsole js fetch api vm =
      [ShowNotification ''VM must be running to open console'' ''error'']"
    by (simp add: openConsole_not_running)
next
  fix e
  assume mem: "e \<in> set (openConsole js fetch api vm)"
    and kind: "(\<exists>i. e = CallGetVNCUrl i) \<or> (\<exists>i u. e = NewVMConsole i u)"
  show "vm_state vm = Some (JStr ''running'') \<or> vm_state vm = Some (JStr ''Running'')"
  proof (rule ccontr)
    assume "\<not> (vm_state vm = Some (JStr ''running'') \<or> vm_state vm = Some (JStr ''Running''))"
    then have "openConsole js fetch api vm =
        [ShowNotification ''VM must be running to open console'' ''error'']"
      by (simp add: openConsole_not_running)
    with mem kind show False by auto
  qed
next
  assume "vm_state vm = Some (JStr ''running'') \<or> vm_state vm = Some (JStr ''Running'')"
  then show "\<exists>rest. openConsole js fetch api vm = CallGetVNCUrl (vm_id vm) # rest"
    by (rule openConsole_running_head)
qed

text \<open>The theorem at a VM whose state is \<^verbatim>\<open>Stopped\<close> and at one whose state is
  \<^verbatim>\<open>Running\<close>.\<close>

theorem openConsole_guard_witness:
  "openConsole demo_js
     (\<lambda>r. Inr \<lparr>ok = True, status = ''200'',
               json_result = Inr (JObj [(''url'', JStr ''ws://127.0.0.1:6080'')])\<rparr>)
     \<lparr>baseUrl = ''http://127.0.0.1:3030/api''\<rparr>
     \<lparr>vm_id = Some (JStr ''7''), vm_name = Some (JStr ''alpine''),
      vm_state = Some (JStr ''Stopped'')\<rparr>
   = [ShowNotification ''VM must be running to open console'' ''error'']
   \<and> hd (openConsole demo_js
     (\<lambda>r. Inr \<lparr>ok = True, status = ''200'',
               json_result = Inr (JObj [(''url'', JStr ''ws://127.0.0.1:6080'')])\<rparr>)
     \<lparr>baseUrl = ''http://127.0.0.1:3030/api''\<rparr>
     \<lparr>vm_id = Some (JStr ''7''), vm_name = Some (JStr ''alpine''),
      vm_state = Some (JStr ''Running'')\<rparr>) = CallGetVNCUrl (Some (JStr ''7''))"
  using
    openConsole_guard [where js = demo_js
      and fetch = "\<lambda>r. Inr \<lparr>ok = True, status = ''200'',
               json_result = Inr (JObj [(''url'', JStr ''ws://127.0.0.1:6080'')])\<rparr>"
      and api = "\<lparr>baseUrl = ''http://127.0.0.1:3030/api''\<rparr>"
      and vm = "\<lparr>vm_id = Some (JStr ''7''), vm_name = Some (JStr ''alpine''),
                vm_state = Some (JStr ''Stopped'')\<rparr>"]
    openConsole_guard [where js = demo_js
      and fetch = "\<lambda>r. Inr \<lparr>ok = True, status = ''200'',
               json_result = Inr (JObj [(''url'', JStr ''ws://127.0.0.1:6080'')])\<rparr>"
      and api = "\<lparr>baseUrl = ''http://127.0.0.1:3030/api''\<rparr>"
      and vm = "\<lparr>vm_id = Some (JStr ''7''), vm_name = Some (JStr ''alpine''),
                vm_state = Some (JStr ''Running'')\<rparr>"]
  by auto

section \<open>Properties of the orchestrator as specified\<close>

text \<open>
  C5. For every call of \<open>try_reserve(memory, vcpu, disk)\<close>: if any single dimension
  would exceed its ceiling, the reservation fails and the ledger is unchanged; the
  call either leaves every counter as it was or commits every dimension, and it
  admits only when all dimensions fit.
\<close>

theorem try_reserve_all_or_nothing:
  "(used_memory led + m > max_memory lim \<or> used_vcpu led + c > max_vcpu lim \<or>
      used_disk led + d > max_disk lim \<or> vm_count led + 1 > max_vms lim \<longrightarrow>
      try_reserve lim led m c d = (False, led))
   \<and> (try_reserve lim led m c d = (False, led) \<or>
       try_reserve lim led m c d =
         (True, led\<lparr>used_memory := used_memory led + m, used_vcpu := used_vcpu led + c,
                    used_disk := used_disk led + d, vm_count := vm_count led + 1\<rparr>))
   \<and> (fst (try_reserve lim led m c d) \<longrightarrow>
        used_memory led + m \<le> max_memory lim \<and> used_vcpu led + c \<le> max_vcpu lim \<and>
        used_disk led + d \<le> max_disk lim \<and> vm_count led + 1 \<le> max_vms lim)"
  by (auto simp: try_reserve_def fits_def)

text \<open>The theorem at a ledger where eight more vCPUs exceed the ceiling of eight while
  memory and disk fit, and at the same ledger with two more.\<close>

theorem try_reserve_all_or_nothing_witness:
  "try_reserve \<lparr>max_memory = 8192, max_vcpu = 8, max_disk = 200, max_vms = 5\<rparr>
     \<lparr>used_memory = 4096, used_vcpu = 2, used_disk = 20, vm_count = 1, port_count = 1\<rparr>
     1024 8 10
   = (False, \<lparr>used_memory = 4096, used_vcpu = 2, used_disk = 20, vm_count = 1, port_count = 1\<rparr>)
   \<and> try_reserve \<lparr>max_memory = 8192, max_vcpu = 8, max_disk = 200, max_vms = 5\<rparr>
     \<lparr>used_memory = 4096, used_vcpu = 2, used_disk = 20, vm_count = 1, port_count = 1\<rparr>
     1024 2 10
   = (True, \<lparr>used_memory = 5120, used_vcpu = 4, used_disk = 30, vm_count = 2, port_count = 1\<rparr>)"
  using
    try_reserve_all_or_nothing [where
      led = "\<lparr>used_memory = 4096, used_vcpu = 2, used_disk = 20, vm_count = 1, port_count = 1\<rparr>"
      and lim = "\<lparr>max_memory = 8192, max_vcpu = 8, max_disk = 200, max_vms = 5\<rparr>"
      and m = 1024 and c = 8 and d = 10]
    try_reserve_all_or_nothing [where
      led = "\<lparr>used_memory = 4096, used_vcpu = 2, used_disk = 20, vm_count = 1, port_count = 1\<rparr>"
      and lim = "\<lparr>max_memory = 8192, max_vcpu = 8, max_disk = 200, max_vms = 5\<rparr>"
      and m = 1024 and c = 2 and d = 10]
  by (simp add: try_reserve_def fits_def)

lemma delete_unknown:
  "map_of (registry s) vid = None \<Longrightarrow> delete stop s vid = (Inl NotFound, s)"
  by (simp add: delete_def)

lemma delete_removes:
  assumes "delete stop s vid = (Inr u, s')"
  shows "map_of (registry s') vid = None"
proof (cases "map_of (registry s) vid")
  case None
  with assms show ?thesis by (simp add: delete_def)
next
  case (Some vm)
  show ?thesis
  proof (cases "lifecycle vm = Running \<or> lifecycle vm = Starting \<or> lifecycle vm = Stopping")
    case True
    obtain r t where st: "stop vid s = (r, t)" by (cases "stop vid s")
    with assms Some True have "s' = remove vid t"
      by (cases r) (auto simp: delete_def)
    then show ?thesis by (simp add: remove_def delete_conv')
  next
    case False
    with assms Some have "s' = remove vid s" by (auto simp: delete_def)
    then show ?thesis by (simp add: remove_def delete_conv')
  qed
qed

text \<open>
  C6. For every id not present in the registry, \<open>delete(id)\<close> fails with NotFound and
  changes nothing; and after a successful \<open>delete(id)\<close>, whether it removed a stopped
  VM or stopped a running one first, a second \<open>delete(id)\<close> returns NotFound.
\<close>

theorem delete_unknown_is_NotFound:
  "(map_of (registry s) vid = None \<longrightarrow> delete stop s vid = (Inl NotFound, s))
   \<and> (\<forall>s'. delete stop s vid = (Inr (), s') \<longrightarrow> delete stop s' vid = (Inl NotFound, s'))"
  using delete_unknown delete_removes by blast

text \<open>The theorem at an unknown id, and at the deletion of a running VM followed by a
  second deletion of the same id.\<close>

theorem delete_unknown_is_NotFound_witness:
  "delete demo_stop demo_state 3 = (Inl NotFound, demo_state)
   \<and> delete demo_stop (snd (delete demo_stop demo_state 2)) 2
       = (Inl NotFound, snd (delete demo_stop demo_state 2))
   \<and> fst (delete demo_stop demo_state 2) = Inr ()
   \<and> map fst (registry (snd (delete demo_stop demo_state 2))) = [1]"
  using
    delete_unknown_is_NotFound [where s = demo_state and vid = 3 and stop = demo_stop]
    delete_unknown_is_NotFound [where s = demo_state and vid = 2 and stop = demo_stop]
  by (simp add: delete_def remove_def demo_state_def demo_stop_def)

end
